theory Spec2Isabelle
  imports Complex_Main
begin

section \<open>Data model\<close>

text \<open>
  The notebook \<^verbatim>\<open>guides/ipynb/writing_a_custom_training_loop_in_jax.ipynb\<close> threads
  the state of a Keras model, optimizer and metric through pure step functions.
  A numeric array is its shape together with its flattened entries (rationals stand
  for the floating-point entries); a collection of variables is the ordered list of
  their values.
\<close>

datatype array = Array (dims: "nat list") (vals: "rat list")

type_synonym variables = "array list"

definition shape_sig :: "variables \<Rightarrow> nat list list" where
  "shape_sig vs = map dims vs"

text \<open>A batch is the pair \<^verbatim>\<open>(x, y)\<close> of inputs and targets.\<close>

type_synonym batch = "array \<times> array"

text \<open>
  Values returned by the functions handed to \<^verbatim>\<open>jax.value_and_grad\<close>. Python tells a
  flat tuple \<^verbatim>\<open>(a, b, c)\<close> from a nested one \<^verbatim>\<open>(a, (b, c))\<close>, which HOL's
  product type does not, so tuples are lists of values here.
\<close>

datatype pyval = PNum rat | PVars variables | PTuple "pyval list"

datatype error = TypeError | ValueError

section \<open>The external collaborators\<close>

text \<open>
  The Keras model, optimizer and metric objects, the loss function and JAX's
  differentiation are library code that the notebook only calls. They are parameters
  of the embedding: each stateless entry point is a function of its explicit
  arguments.

  \<^item> \<open>forward m training tv ntv x\<close> is the forward pass of
    \<^verbatim>\<open>model.stateless_call(tv, ntv, x, training=...)\<close>: the predictions, the updated
    non-trainable variables and the losses tracked by the layers (\<^verbatim>\<open>add_loss\<close>).
  \<^item> \<open>grad_of E f p\<close> is the gradient of the scalar function \<open>f\<close> at \<open>p\<close>.
\<close>

record model_obj =
  forward :: "bool option \<Rightarrow> variables \<Rightarrow> variables \<Rightarrow> array \<Rightarrow> array \<times> variables \<times> rat list"

record optimizer_obj =
  build :: "variables \<Rightarrow> variables"
  stateless_apply :: "variables \<Rightarrow> variables \<Rightarrow> variables \<Rightarrow> variables \<times> variables"

record metric_obj =
  stateless_update_state :: "variables \<Rightarrow> array \<Rightarrow> array \<Rightarrow> variables"
  result :: "variables \<Rightarrow> rat"

record env =
  model :: model_obj
  loss_fn :: "array \<Rightarrow> array \<Rightarrow> rat"
  optimizer :: optimizer_obj
  train_acc_metric :: metric_obj
  val_acc_metric :: metric_obj
  grad_of :: "(variables \<Rightarrow> rat) \<Rightarrow> variables \<Rightarrow> variables"

text \<open>
  \<^verbatim>\<open>model.stateless_call(tv, ntv, x, ...)\<close> returns the pair of predictions and
  non-trainable variables; with \<^verbatim>\<open>return_losses=True\<close> it returns the tracked losses
  as a third component.
\<close>

definition stateless_call ::
  "model_obj \<Rightarrow> variables \<Rightarrow> variables \<Rightarrow> array \<Rightarrow> bool option \<Rightarrow> array \<times> variables" where
  "stateless_call m tv ntv x training =
     (case forward m training tv ntv x of (y_pred, ntv', losses) \<Rightarrow> (y_pred, ntv'))"

definition stateless_call_losses ::
  "model_obj \<Rightarrow> variables \<Rightarrow> variables \<Rightarrow> array \<Rightarrow> bool option \<Rightarrow> array \<times> variables \<times> rat list" where
  "stateless_call_losses m tv ntv x training = forward m training tv ntv x"

text \<open>
  Modelled from the spec: \<^verbatim>\<open>jax.value_and_grad(f, has_aux=True)\<close> is not part of the
  repository. The spec's contract (section 4.2) and the notebook's own description:
  the function returns the pair \<^verbatim>\<open>(loss_scalar, auxiliary_outputs)\<close>, the scalar to
  differentiate is its first element, and the derived function returns
  \<^verbatim>\<open>((loss_scalar, auxiliary_outputs), gradients)\<close>, differentiating with respect to
  the first positional argument. A return value that is not such a pair is rejected.
\<close>

fun loss_and_aux :: "pyval \<Rightarrow> (rat \<times> pyval) option" where
  "loss_and_aux (PTuple [PNum l, a]) = Some (l, a)"
| "loss_and_aux _ = None"

definition loss_of :: "pyval \<Rightarrow> rat" where
  "loss_of v = (case loss_and_aux v of Some (l, a) \<Rightarrow> l | None \<Rightarrow> 0)"

definition value_and_grad ::
  "((variables \<Rightarrow> rat) \<Rightarrow> variables \<Rightarrow> variables) \<Rightarrow> (variables \<Rightarrow> 'r \<Rightarrow> pyval) \<Rightarrow>
   variables \<Rightarrow> 'r \<Rightarrow> error + (pyval \<times> variables)" where
  "value_and_grad D f p rest =
     (case loss_and_aux (f p rest) of
        None \<Rightarrow> Inl TypeError
      | Some (l, a) \<Rightarrow> Inr (PTuple [PNum l, a], D (\<lambda>t. loss_of (f t rest)) p))"

section \<open>A first end-to-end example\<close>

text \<open>
  The first \<^verbatim>\<open>compute_loss_and_updates\<close> (forward pass with \<^verbatim>\<open>training=True\<close>, no
  metric), its \<^verbatim>\<open>grad_fn\<close> and the first \<^verbatim>\<open>train_step\<close> over the three-component
  state. The arguments after the differentiated one are passed as one tuple.
  \<^verbatim>\<open>@jax.jit\<close> compiles the step function and leaves what it computes unchanged, so the
  two definitions of this \<^verbatim>\<open>train_step\<close> (eager and compiled) are one function here.
\<close>

definition compute_loss_and_updates0 ::
  "env \<Rightarrow> variables \<Rightarrow> variables \<times> array \<times> array \<Rightarrow> pyval" where
  "compute_loss_and_updates0 E trainable_variables rest =
     (case rest of (non_trainable_variables, x, y) \<Rightarrow>
        (case stateless_call (model E) trainable_variables non_trainable_variables x (Some True) of
           (y_pred, non_trainable_variables') \<Rightarrow>
             let loss = loss_fn E y y_pred
             in PTuple [PNum loss, PVars non_trainable_variables']))"

definition grad_fn0 ::
  "env \<Rightarrow> variables \<Rightarrow> variables \<times> array \<times> array \<Rightarrow> error + (pyval \<times> variables)" where
  "grad_fn0 E = value_and_grad (grad_of E) (compute_loss_and_updates0 E)"

type_synonym state3 = "variables \<times> variables \<times> variables"

text \<open>The destructuring \<^verbatim>\<open>(loss, non_trainable_variables), grads = ...\<close>.\<close>

fun unpack0 :: "pyval \<Rightarrow> (rat \<times> variables) option" where
  "unpack0 (PTuple [PNum loss, PVars ntv]) = Some (loss, ntv)"
| "unpack0 _ = None"

definition train_step0 :: "env \<Rightarrow> state3 \<Rightarrow> batch \<Rightarrow> error + (rat \<times> state3)" where
  "train_step0 E state data =
     (case state of (trainable_variables, non_trainable_variables, optimizer_variables) \<Rightarrow>
      (case data of (x, y) \<Rightarrow>
       (case grad_fn0 E trainable_variables (non_trainable_variables, x, y) of
          Inl e \<Rightarrow> Inl e
        | Inr (out, grads) \<Rightarrow>
            (case unpack0 out of
               None \<Rightarrow> Inl ValueError
             | Some (loss, non_trainable_variables') \<Rightarrow>
                 (case stateless_apply (optimizer E) optimizer_variables grads trainable_variables of
                    (trainable_variables', optimizer_variables') \<Rightarrow>
                      Inr (loss, (trainable_variables', non_trainable_variables',
                                  optimizer_variables')))))))"

section \<open>Low-level handling of metrics\<close>

text \<open>
  The second \<^verbatim>\<open>compute_loss_and_updates\<close> (with the training metric), the \<^verbatim>\<open>grad_fn\<close>
  built from it, and the \<^verbatim>\<open>train_step\<close> and \<^verbatim>\<open>eval_step\<close> that the loops call. The
  calls of \<^verbatim>\<open>stateless_call\<close> pass no \<^verbatim>\<open>training\<close> argument. The notebook binds
  \<^verbatim>\<open>grad_fn\<close> once more here and never again, so this \<^verbatim>\<open>train_step\<close> differentiates the
  second \<^verbatim>\<open>compute_loss_and_updates\<close>.
\<close>

definition compute_loss_and_updates ::
  "env \<Rightarrow> variables \<Rightarrow> variables \<times> variables \<times> array \<times> array \<Rightarrow> pyval" where
  "compute_loss_and_updates E trainable_variables rest =
     (case rest of (non_trainable_variables, metric_variables, x, y) \<Rightarrow>
        (case stateless_call (model E) trainable_variables non_trainable_variables x None of
           (y_pred, non_trainable_variables') \<Rightarrow>
             let loss = loss_fn E y y_pred;
                 metric_variables' =
                   stateless_update_state (train_acc_metric E) metric_variables y y_pred
             in PTuple [PNum loss, PTuple [PVars non_trainable_variables', PVars metric_variables']]))"

definition grad_fn ::
  "env \<Rightarrow> variables \<Rightarrow> variables \<times> variables \<times> array \<times> array \<Rightarrow> error + (pyval \<times> variables)" where
  "grad_fn E = value_and_grad (grad_of E) (compute_loss_and_updates E)"

type_synonym state4 = "variables \<times> variables \<times> variables \<times> variables"

text \<open>The destructuring \<^verbatim>\<open>(loss, (non_trainable_variables, metric_variables)), grads = ...\<close>.\<close>

fun unpack :: "pyval \<Rightarrow> (rat \<times> variables \<times> variables) option" where
  "unpack (PTuple [PNum loss, PTuple [PVars ntv, PVars mv]]) = Some (loss, ntv, mv)"
| "unpack _ = None"

definition train_step :: "env \<Rightarrow> state4 \<Rightarrow> batch \<Rightarrow> error + (rat \<times> state4)" where
  "train_step E state data =
     (case state of
        (trainable_variables, non_trainable_variables, optimizer_variables, metric_variables) \<Rightarrow>
      (case data of (x, y) \<Rightarrow>
       (case grad_fn E trainable_variables (non_trainable_variables, metric_variables, x, y) of
          Inl e \<Rightarrow> Inl e
        | Inr (out, grads) \<Rightarrow>
            (case unpack out of
               None \<Rightarrow> Inl ValueError
             | Some (loss, non_trainable_variables', metric_variables') \<Rightarrow>
                 (case stateless_apply (optimizer E) optimizer_variables grads trainable_variables of
                    (trainable_variables', optimizer_variables') \<Rightarrow>
                      Inr (loss, (trainable_variables', non_trainable_variables',
                                  optimizer_variables', metric_variables')))))))"

definition eval_step :: "env \<Rightarrow> state3 \<Rightarrow> batch \<Rightarrow> rat \<times> state3" where
  "eval_step E state data =
     (case state of (trainable_variables, non_trainable_variables, metric_variables) \<Rightarrow>
      (case data of (x, y) \<Rightarrow>
       (case stateless_call (model E) trainable_variables non_trainable_variables x None of
          (y_pred, non_trainable_variables') \<Rightarrow>
            let loss = loss_fn E y y_pred;
                metric_variables' =
                  stateless_update_state (val_acc_metric E) metric_variables y y_pred
            in (loss, (trainable_variables, non_trainable_variables', metric_variables')))))"

section \<open>Low-level handling of losses tracked by the model\<close>

text \<open>
  The third \<^verbatim>\<open>compute_loss_and_updates\<close>: it asks the forward pass for the tracked
  losses, adds their sum to the loss when the list is not empty, and returns the flat
  three-element tuple \<^verbatim>\<open>loss, non_trainable_variables, metric_variables\<close>.
\<close>

definition compute_loss_and_updates_losses ::
  "env \<Rightarrow> variables \<Rightarrow> variables \<times> variables \<times> array \<times> array \<Rightarrow> pyval" where
  "compute_loss_and_updates_losses E trainable_variables rest =
     (case rest of (non_trainable_variables, metric_variables, x, y) \<Rightarrow>
        (case stateless_call_losses (model E) trainable_variables non_trainable_variables x None of
           (y_pred, non_trainable_variables', losses) \<Rightarrow>
             let loss = loss_fn E y y_pred;
                 loss = (if losses \<noteq> [] then loss + sum_list losses else loss);
                 metric_variables' =
                   stateless_update_state (train_acc_metric E) metric_variables y y_pred
             in PTuple [PNum loss, PVars non_trainable_variables', PVars metric_variables']))"

section \<open>The mutable objects and the loops\<close>

text \<open>
  The values held by the long-lived objects: \<^verbatim>\<open>model.trainable_variables\<close>,
  \<^verbatim>\<open>model.non_trainable_variables\<close>, \<^verbatim>\<open>optimizer.variables\<close>,
  \<^verbatim>\<open>train_acc_metric.variables\<close> and \<^verbatim>\<open>val_acc_metric.variables\<close>.
\<close>

record objs =
  model_tv :: variables
  model_ntv :: variables
  optimizer_vars :: variables
  train_acc_vars :: variables
  val_acc_vars :: variables

text \<open>
  \<^verbatim>\<open>for variable, value in zip(vars, values): variable.assign(value)\<close>: \<^verbatim>\<open>zip\<close> stops
  at the shorter list, so the variables past the last value keep what they hold. An
  assignment stores the value; the checks of \<^verbatim>\<open>assign\<close> itself are Keras's and not modelled.
\<close>

definition assign_all :: "variables \<Rightarrow> variables \<Rightarrow> variables" where
  "assign_all vars values = map snd (zip vars values) @ drop (length values) vars"

text \<open>The lines the loops print.\<close>

datatype log_line =
    TrainingLoss nat rat
  | TrainingAccuracy rat
  | ValidationLoss nat rat
  | ValidationAccuracy rat
  | SeenSoFar nat

definition batch_size :: nat where
  "batch_size = 32"

text \<open>The training loop of the first example, \<open>step\<close> counting from \<^verbatim>\<open>enumerate\<close>.\<close>

fun training_loop0 ::
  "env \<Rightarrow> nat \<Rightarrow> batch list \<Rightarrow> state3 \<times> log_line list \<Rightarrow> error + (state3 \<times> log_line list)" where
  "training_loop0 E step [] acc = Inr acc"
| "training_loop0 E step (data # dataset) (state, out) =
     (case train_step0 E state data of
        Inl e \<Rightarrow> Inl e
      | Inr (loss, state') \<Rightarrow>
          training_loop0 E (Suc step) dataset
            (state',
             if step mod 100 = 0
             then out @ [TrainingLoss step loss, SeenSoFar ((step + 1) * batch_size)]
             else out))"

text \<open>
  The first example: build the optimizer variables, form the state from the objects,
  run the loop, then attach the final trainable and non-trainable values to the model.
\<close>

definition first_example :: "env \<Rightarrow> objs \<Rightarrow> batch list \<Rightarrow> error + (objs \<times> log_line list)" where
  "first_example E w train_dataset =
     (let w1 = w\<lparr>optimizer_vars := build (optimizer E) (model_tv w)\<rparr>;
          state = (model_tv w1, model_ntv w1, optimizer_vars w1)
      in case training_loop0 E 0 train_dataset (state, []) of
           Inl e \<Rightarrow> Inl e
         | Inr ((trainable_variables, non_trainable_variables, optimizer_variables), out) \<Rightarrow>
             Inr (w1\<lparr>model_tv := assign_all (model_tv w1) trainable_variables,
                     model_ntv := assign_all (model_ntv w1) non_trainable_variables\<rparr>,
                  out))"

text \<open>
  The loops of the second example. Every 100 steps the metric values of the state are
  assigned to the metric object, whose \<^verbatim>\<open>result()\<close> is printed.
\<close>

fun training_loop ::
  "env \<Rightarrow> nat \<Rightarrow> batch list \<Rightarrow> objs \<times> state4 \<times> log_line list \<Rightarrow>
   error + (objs \<times> state4 \<times> log_line list)" where
  "training_loop E step [] acc = Inr acc"
| "training_loop E step (data # dataset) (w, state, out) =
     (case train_step E state data of
        Inl e \<Rightarrow> Inl e
      | Inr (loss, state') \<Rightarrow>
          training_loop E (Suc step) dataset
            (if step mod 100 = 0
             then (case state' of (_, _, _, metric_variables) \<Rightarrow>
                     let w' = w\<lparr>train_acc_vars := assign_all (train_acc_vars w) metric_variables\<rparr>
                     in (w', state',
                         out @ [TrainingLoss step loss,
                                TrainingAccuracy (result (train_acc_metric E) (train_acc_vars w')),
                                SeenSoFar ((step + 1) * batch_size)]))
             else (w, state', out)))"

fun eval_loop ::
  "env \<Rightarrow> nat \<Rightarrow> batch list \<Rightarrow> objs \<times> state3 \<times> log_line list \<Rightarrow> objs \<times> state3 \<times> log_line list" where
  "eval_loop E step [] acc = acc"
| "eval_loop E step (data # dataset) (w, state, out) =
     (case eval_step E state data of
        (loss, state') \<Rightarrow>
          eval_loop E (Suc step) dataset
            (if step mod 100 = 0
             then (case state' of (_, _, metric_variables) \<Rightarrow>
                     let w' = w\<lparr>val_acc_vars := assign_all (val_acc_vars w) metric_variables\<rparr>
                     in (w', state',
                         out @ [ValidationLoss step loss,
                                ValidationAccuracy (result (val_acc_metric E) (val_acc_vars w')),
                                SeenSoFar ((step + 1) * batch_size)]))
             else (w, state', out)))"

text \<open>The statements before the training loop of the second example.\<close>

definition training_setup :: "env \<Rightarrow> objs \<Rightarrow> objs \<times> state4" where
  "training_setup E w =
     (let w1 = w\<lparr>optimizer_vars := build (optimizer E) (model_tv w)\<rparr>;
          trainable_variables = model_tv w1;
          non_trainable_variables = model_ntv w1;
          optimizer_variables = optimizer_vars w1;
          metric_variables = train_acc_vars w1
      in (w1, (trainable_variables, non_trainable_variables, optimizer_variables,
               metric_variables)))"

text \<open>
  The statements between the two loops:
  \<^verbatim>\<open>metric_variables = val_acc_metric.variables\<close>, then the destructuring of \<^verbatim>\<open>state\<close>,
  which binds \<^verbatim>\<open>metric_variables\<close> again, then the three-component state.
\<close>

definition eval_setup :: "objs \<Rightarrow> state4 \<Rightarrow> state3" where
  "eval_setup w state =
     (let metric_variables = val_acc_vars w
      in case state of
           (trainable_variables, non_trainable_variables, optimizer_variables, metric_variables) \<Rightarrow>
             (trainable_variables, non_trainable_variables, metric_variables))"

definition second_example ::
  "env \<Rightarrow> objs \<Rightarrow> batch list \<Rightarrow> batch list \<Rightarrow> error + (objs \<times> state3 \<times> log_line list)" where
  "second_example E w train_dataset val_dataset =
     (case training_setup E w of
        (w1, state) \<Rightarrow>
          (case training_loop E 0 train_dataset (w1, state, []) of
             Inl e \<Rightarrow> Inl e
           | Inr (w2, state', out) \<Rightarrow>
               Inr (eval_loop E 0 val_dataset (w2, eval_setup w2 state', out))))"

section \<open>The accuracy metric\<close>

text \<open>
  Modelled from the spec: \<^verbatim>\<open>keras.metrics.CategoricalAccuracy\<close> is not part of the
  repository. The spec (sections 3 and 4.4) makes the metric accumulators partial sums,
  the count of correct predictions and the count of samples; \<^verbatim>\<open>update\<close> adds the batch's
  contribution to them, \<^verbatim>\<open>reduce\<close> is the ratio of correct to total, and \<^verbatim>\<open>reset\<close> is
  the zero state. A prediction is correct when the largest entry of its row stands at
  the index of the largest entry of the target row. Targets and predictions are arrays
  of shape \<open>[n, k]\<close>, one row per sample.
\<close>

fun argmax_from :: "nat \<Rightarrow> nat \<Rightarrow> rat \<Rightarrow> rat list \<Rightarrow> nat" where
  "argmax_from i best m [] = best"
| "argmax_from i best m (v # vs) =
     (if m < v then argmax_from (Suc i) i v vs else argmax_from (Suc i) best m vs)"

fun argmax :: "rat list \<Rightarrow> nat" where
  "argmax [] = 0"
| "argmax (v # vs) = argmax_from 1 0 v vs"

fun rows :: "array \<Rightarrow> rat list list" where
  "rows (Array [n, k] vs) = map (\<lambda>i. take k (drop (i * k) vs)) [0..<n]"
| "rows _ = []"

definition correct :: "array \<Rightarrow> array \<Rightarrow> bool list" where
  "correct y_true y_pred = map (\<lambda>(t, p). argmax t = argmax p) (zip (rows y_true) (rows y_pred))"

fun accuracy_update :: "variables \<Rightarrow> array \<Rightarrow> array \<Rightarrow> variables" where
  "accuracy_update [Array d1 [tot], Array d2 [cnt]] y_true y_pred =
     [Array d1 [tot + of_nat (length (filter id (correct y_true y_pred)))],
      Array d2 [cnt + of_nat (length (correct y_true y_pred))]]"
| "accuracy_update mv y_true y_pred = mv"

fun accuracy_reduce :: "variables \<Rightarrow> rat" where
  "accuracy_reduce [Array d1 [tot], Array d2 [cnt]] = (if cnt = 0 then 0 else tot / cnt)"
| "accuracy_reduce mv = 0"

definition accuracy_reset :: variables where
  "accuracy_reset = [Array [] [0], Array [] [0]]"

definition categorical_accuracy :: metric_obj where
  "categorical_accuracy =
     \<lparr>stateless_update_state = accuracy_update, result = accuracy_reduce\<rparr>"

text \<open>Two batches of shape \<open>[n, k]\<close> put one after the other, sample by sample.\<close>

fun concat_rows :: "array \<Rightarrow> array \<Rightarrow> array" where
  "concat_rows (Array [n1, k1] v1) (Array [n2, k2] v2) = Array [n1 + n2, k1] (v1 @ v2)"
| "concat_rows a b = a"

definition batch_shape :: "nat \<Rightarrow> nat \<Rightarrow> array \<Rightarrow> bool" where
  "batch_shape n k a = (dims a = [n, k] \<and> length (vals a) = n * k)"

section \<open>A small instance of the collaborators\<close>

text \<open>
  A concrete model, loss, optimizer and differentiation on which the step functions
  and the loops can be run: a model with one weight (the sum of the entries of its
  trainable variables) that scales its input and counts its calls in the
  non-trainable variables, the squared error, gradient descent with a step counter and
  learning rate 1/10, and central differences (exact on this quadratic loss).
  \<open>toy_losses\<close> is the same with a model whose layers track an activity
  regularization loss, a hundredth of the sum of the inputs.
\<close>

definition weight :: "variables \<Rightarrow> rat" where
  "weight tv = sum_list (concat (map vals tv))"

definition bump :: "array \<Rightarrow> array" where
  "bump a = Array (dims a) (map (\<lambda>v. v + 1) (vals a))"

definition toy_forward ::
  "bool option \<Rightarrow> variables \<Rightarrow> variables \<Rightarrow> array \<Rightarrow> array \<times> variables \<times> rat list" where
  "toy_forward training tv ntv x =
     (Array (dims x) (map (\<lambda>v. weight tv * v) (vals x)), map bump ntv, [])"


definition squared_error :: "array \<Rightarrow> array \<Rightarrow> rat" where
  "squared_error y y_pred = sum_list (map (\<lambda>(a, b). (a - b) * (a - b)) (zip (vals y) (vals y_pred)))"

definition shift :: "variables \<Rightarrow> nat \<Rightarrow> nat \<Rightarrow> rat \<Rightarrow> variables" where
  "shift p i j h = p[i := Array (dims (p ! i)) ((vals (p ! i))[j := vals (p ! i) ! j + h])]"

definition central_diff :: "(variables \<Rightarrow> rat) \<Rightarrow> variables \<Rightarrow> variables" where
  "central_diff f p =
     map (\<lambda>i. Array (dims (p ! i))
                (map (\<lambda>j. (f (shift p i j 1) - f (shift p i j (- 1))) / 2)
                     [0..<length (vals (p ! i))]))
         [0..<length p]"

definition descend :: "array \<Rightarrow> array \<Rightarrow> array" where
  "descend a g = Array (dims a) (map (\<lambda>(v, d). v - d / 10) (zip (vals a) (vals g)))"

definition sgd :: optimizer_obj where
  "sgd = \<lparr>build = (\<lambda>tv. [Array [] [0]]),
          stateless_apply = (\<lambda>ov grads tv. (map (\<lambda>(a, g). descend a g) (zip tv grads), map bump ov))\<rparr>"

definition toy :: env where
  "toy = \<lparr>model = \<lparr>forward = toy_forward\<rparr>, loss_fn = squared_error, optimizer = sgd,
          train_acc_metric = categorical_accuracy, val_acc_metric = categorical_accuracy,
          grad_of = central_diff\<rparr>"


text \<open>A state, a batch of two samples with two classes, and the objects before a run.\<close>

definition ex_tv :: variables where
  "ex_tv = [Array [1] [1 / 2]]"

definition ex_ntv :: variables where
  "ex_ntv = [Array [] [0]]"

definition ex_x :: array where
  "ex_x = Array [2, 2] [1, 2, 4, 3]"

definition ex_y :: array where
  "ex_y = Array [2, 2] [0, 1, 0, 1]"

definition ex_state :: state4 where
  "ex_state = (ex_tv, ex_ntv, [Array [] [0]], accuracy_reset)"

definition ex_objs :: objs where
  "ex_objs = \<lparr>model_tv = ex_tv, model_ntv = ex_ntv, optimizer_vars = [],
               train_acc_vars = accuracy_reset, val_acc_vars = accuracy_reset\<rparr>"

section \<open>Statements of the specification\<close>



text \<open>
  The contract of the collaborators on shapes: the forward pass returns non-trainable
  variables of the shapes it was given, the gradient has the shapes of the differentiated
  argument, the optimizer applied to gradients of the parameters' shapes returns
  parameters and accumulators of unchanged shapes, and a metric update returns
  accumulators of unchanged shapes.
\<close>

definition shape_preserving :: "env \<Rightarrow> bool" where
  "shape_preserving E =
     ((\<forall>training tv ntv x. shape_sig (fst (snd (forward (model E) training tv ntv x))) = shape_sig ntv) \<and>
      (\<forall>f p. shape_sig (grad_of E f p) = shape_sig p) \<and>
      (\<forall>ov g tv. shape_sig g = shape_sig tv \<longrightarrow>
          shape_sig (fst (stateless_apply (optimizer E) ov g tv)) = shape_sig tv \<and>
          shape_sig (snd (stateless_apply (optimizer E) ov g tv)) = shape_sig ov) \<and>
      (\<forall>mv y p. shape_sig (stateless_update_state (train_acc_metric E) mv y p) = shape_sig mv) \<and>
      (\<forall>mv y p. shape_sig (stateless_update_state (val_acc_metric E) mv y p) = shape_sig mv))"

definition state_sig4 :: "state4 \<Rightarrow> nat list list \<times> nat list list \<times> nat list list \<times> nat list list" where
  "state_sig4 state =
     (case state of (tv, ntv, ov, mv) \<Rightarrow> (shape_sig tv, shape_sig ntv, shape_sig ov, shape_sig mv))"

definition state_sig3 :: "state3 \<Rightarrow> nat list list \<times> nat list list \<times> nat list list" where
  "state_sig3 state =
     (case state of (a, b, c) \<Rightarrow> (shape_sig a, shape_sig b, shape_sig c))"

section \<open>What the step functions compute\<close>

text \<open>
  Both \<^verbatim>\<open>compute_loss_and_updates\<close> functions that are handed to \<^verbatim>\<open>jax.value_and_grad\<close>
  return a pair, so their gradient functions and the training steps never fail.
\<close>

lemma compute_loss_and_updates_unfold:
  "compute_loss_and_updates E t (ntv, mv, x, y) =
     PTuple [PNum (loss_fn E y (fst (stateless_call (model E) t ntv x None))),
             PTuple [PVars (snd (stateless_call (model E) t ntv x None)),
                     PVars (stateless_update_state (train_acc_metric E) mv y
                              (fst (stateless_call (model E) t ntv x None)))]]"
  by (simp add: compute_loss_and_updates_def Let_def split: prod.splits)

lemma compute_loss_and_updates0_unfold:
  "compute_loss_and_updates0 E t (ntv, x, y) =
     PTuple [PNum (loss_fn E y (fst (stateless_call (model E) t ntv x (Some True)))),
             PVars (snd (stateless_call (model E) t ntv x (Some True)))]"
  by (simp add: compute_loss_and_updates0_def Let_def split: prod.splits)

lemma grad_fn_unfold:
  "grad_fn E tv (ntv, mv, x, y) =
     Inr (PTuple [PNum (loss_fn E y (fst (stateless_call (model E) tv ntv x None))),
                  PTuple [PVars (snd (stateless_call (model E) tv ntv x None)),
                          PVars (stateless_update_state (train_acc_metric E) mv y
                                   (fst (stateless_call (model E) tv ntv x None)))]],
          grad_of E (\<lambda>t. loss_fn E y (fst (stateless_call (model E) t ntv x None))) tv)"
  by (simp add: grad_fn_def value_and_grad_def compute_loss_and_updates_unfold loss_of_def)

lemma grad_fn0_unfold:
  "grad_fn0 E tv (ntv, x, y) =
     Inr (PTuple [PNum (loss_fn E y (fst (stateless_call (model E) tv ntv x (Some True)))),
                  PVars (snd (stateless_call (model E) tv ntv x (Some True)))],
          grad_of E (\<lambda>t. loss_fn E y (fst (stateless_call (model E) t ntv x (Some True)))) tv)"
  by (simp add: grad_fn0_def value_and_grad_def compute_loss_and_updates0_unfold loss_of_def)

lemma train_step_unfold:
  "train_step E (tv, ntv, ov, mv) (x, y) =
     Inr (loss_fn E y (fst (stateless_call (model E) tv ntv x None)),
          (fst (stateless_apply (optimizer E) ov
                  (grad_of E (\<lambda>t. loss_fn E y (fst (stateless_call (model E) t ntv x None))) tv) tv),
           snd (stateless_call (model E) tv ntv x None),
           snd (stateless_apply (optimizer E) ov
                  (grad_of E (\<lambda>t. loss_fn E y (fst (stateless_call (model E) t ntv x None))) tv) tv),
           stateless_update_state (train_acc_metric E) mv y
             (fst (stateless_call (model E) tv ntv x None))))"
  by (simp add: train_step_def grad_fn_unfold split: prod.splits)

lemma train_step0_unfold:
  "train_step0 E (tv, ntv, ov) (x, y) =
     Inr (loss_fn E y (fst (stateless_call (model E) tv ntv x (Some True))),
          (fst (stateless_apply (optimizer E) ov
                  (grad_of E (\<lambda>t. loss_fn E y (fst (stateless_call (model E) t ntv x (Some True)))) tv) tv),
           snd (stateless_call (model E) tv ntv x (Some True)),
           snd (stateless_apply (optimizer E) ov
                  (grad_of E (\<lambda>t. loss_fn E y (fst (stateless_call (model E) t ntv x (Some True)))) tv) tv)))"
  by (simp add: train_step0_def grad_fn0_unfold split: prod.splits)

lemma eval_step_unfold:
  "eval_step E (tv, ntv, mv) (x, y) =
     (loss_fn E y (fst (stateless_call (model E) tv ntv x None)),
      (tv, snd (stateless_call (model E) tv ntv x None),
       stateless_update_state (val_acc_metric E) mv y
         (fst (stateless_call (model E) tv ntv x None))))"
  by (simp add: eval_step_def Let_def split: prod.splits)

lemma train_step_total: "\<exists>loss state'. train_step E state data = Inr (loss, state')"
  by (cases state; cases data) (simp add: train_step_unfold)

lemma train_step0_total: "\<exists>loss state'. train_step0 E state data = Inr (loss, state')"
  by (cases state; cases data) (simp add: train_step0_unfold)



lemma training_loop0_total:
  "\<exists>state' out'. training_loop0 E k ds (state, out) = Inr (state', out')"
proof (induction ds arbitrary: k state out)
  case Nil
  show ?case by (cases state) simp
next
  case (Cons d ds)
  obtain loss state' where s: "train_step0 E state d = Inr (loss, state')"
    using train_step0_total by blast
  show ?case using Cons.IH by (simp add: s)
qed

lemma training_loop_frame:
  "\<exists>mvs state' out'.
     training_loop E k ds (w, state, out) = Inr (w\<lparr>train_acc_vars := mvs\<rparr>, state', out')"
proof (induction ds arbitrary: k w state out)
  case Nil
  have "w = w\<lparr>train_acc_vars := train_acc_vars w\<rparr>" by simp
  then show ?case by (metis training_loop.simps(1))
next
  case (Cons d ds)
  obtain loss a b c mv where s: "train_step E state d = Inr (loss, (a, b, c, mv))"
    using train_step_total by (metis prod_cases4)
  show ?case
  proof (cases "k mod 100 = 0")
    case True
    obtain mvs state' out' where
      "training_loop E (Suc k) ds
         (w\<lparr>train_acc_vars := assign_all (train_acc_vars w) mv\<rparr>, (a, b, c, mv),
          out @ [TrainingLoss k loss,
                 TrainingAccuracy (result (train_acc_metric E) (assign_all (train_acc_vars w) mv)),
                 SeenSoFar ((k + 1) * batch_size)]) =
       Inr (w\<lparr>train_acc_vars := assign_all (train_acc_vars w) mv\<rparr>\<lparr>train_acc_vars := mvs\<rparr>, state', out')"
      using Cons.IH by blast
    then show ?thesis using True by (force simp add: s Let_def simp del: split_paired_Ex)
  next
    case False
    then show ?thesis using Cons.IH by (simp add: s)
  qed
qed

lemma eval_loop_frame:
  "\<exists>mvs state' out'.
     eval_loop E k ds (w, state, out) = (w\<lparr>val_acc_vars := mvs\<rparr>, state', out')"
proof (induction ds arbitrary: k w state out)
  case Nil
  have "w = w\<lparr>val_acc_vars := val_acc_vars w\<rparr>" by simp
  then show ?case by (metis eval_loop.simps(1))
next
  case (Cons d ds)
  obtain loss a b mv where s: "eval_step E state d = (loss, (a, b, mv))"
    by (metis prod_cases3)
  show ?case
  proof (cases "k mod 100 = 0")
    case True
    obtain mvs state' out' where
      "eval_loop E (Suc k) ds
         (w\<lparr>val_acc_vars := assign_all (val_acc_vars w) mv\<rparr>, (a, b, mv),
          out @ [ValidationLoss k loss,
                 ValidationAccuracy (result (val_acc_metric E) (assign_all (val_acc_vars w) mv)),
                 SeenSoFar ((k + 1) * batch_size)]) =
       (w\<lparr>val_acc_vars := assign_all (val_acc_vars w) mv\<rparr>\<lparr>val_acc_vars := mvs\<rparr>, state', out')"
      using Cons.IH by blast
    then show ?thesis using True by (force simp add: s Let_def simp del: split_paired_Ex)
  next
    case False
    then show ?thesis using Cons.IH by (simp add: s)
  qed
qed





section \<open>Shapes\<close>

text \<open>
  With collaborators that keep shapes, every step and every loop returns a state of
  the shapes it was given. The small instance keeps shapes.
\<close>

lemma snd_stateless_call:
  "snd (stateless_call m tv ntv x training) = fst (snd (forward m training tv ntv x))"
  by (simp add: stateless_call_def split: prod.splits)

lemma train_step_shapes:
  assumes "shape_preserving E"
  shows "\<exists>loss state'. train_step E state data = Inr (loss, state') \<and>
           state_sig4 state' = state_sig4 state"
proof -
  obtain tv ntv ov mv where st: "state = (tv, ntv, ov, mv)" by (cases state) auto
  obtain x y where d: "data = (x, y)" by (cases data) auto
  define g where "g = grad_of E (\<lambda>t. loss_fn E y (fst (stateless_call (model E) t ntv x None))) tv"
  have g: "shape_sig g = shape_sig tv"
    using assms by (simp add: shape_preserving_def g_def)
  have a: "shape_sig (fst (stateless_apply (optimizer E) ov g tv)) = shape_sig tv"
    and b: "shape_sig (snd (stateless_apply (optimizer E) ov g tv)) = shape_sig ov"
    using assms g by (simp_all add: shape_preserving_def)
  have c: "shape_sig (snd (stateless_call (model E) tv ntv x None)) = shape_sig ntv"
    using assms by (simp add: shape_preserving_def snd_stateless_call)
  have m: "shape_sig (stateless_update_state (train_acc_metric E) mv y
             (fst (stateless_call (model E) tv ntv x None))) = shape_sig mv"
    using assms by (simp add: shape_preserving_def)
  show ?thesis
    using a b c m by (simp add: st d train_step_unfold state_sig4_def g_def)
qed

lemma train_step0_shapes:
  assumes "shape_preserving E"
  shows "\<exists>loss state'. train_step0 E state data = Inr (loss, state') \<and>
           state_sig3 state' = state_sig3 state"
proof -
  obtain tv ntv ov where st: "state = (tv, ntv, ov)" by (cases state) auto
  obtain x y where d: "data = (x, y)" by (cases data) auto
  define g where
    "g = grad_of E (\<lambda>t. loss_fn E y (fst (stateless_call (model E) t ntv x (Some True)))) tv"
  have g: "shape_sig g = shape_sig tv"
    using assms by (simp add: shape_preserving_def g_def)
  have a: "shape_sig (fst (stateless_apply (optimizer E) ov g tv)) = shape_sig tv"
    and b: "shape_sig (snd (stateless_apply (optimizer E) ov g tv)) = shape_sig ov"
    using assms g by (simp_all add: shape_preserving_def)
  have c: "shape_sig (snd (stateless_call (model E) tv ntv x (Some True))) = shape_sig ntv"
    using assms by (simp add: shape_preserving_def snd_stateless_call)
  show ?thesis
    using a b c by (simp add: st d train_step0_unfold state_sig3_def g_def)
qed

lemma eval_step_shapes:
  assumes "shape_preserving E"
  shows "state_sig3 (snd (eval_step E state data)) = state_sig3 state"
proof -
  obtain tv ntv mv where st: "state = (tv, ntv, mv)" by (cases state) auto
  obtain x y where d: "data = (x, y)" by (cases data) auto
  have c: "shape_sig (snd (stateless_call (model E) tv ntv x None)) = shape_sig ntv"
    using assms by (simp add: shape_preserving_def snd_stateless_call)
  have m: "shape_sig (stateless_update_state (val_acc_metric E) mv y
             (fst (stateless_call (model E) tv ntv x None))) = shape_sig mv"
    using assms by (simp add: shape_preserving_def)
  show ?thesis
    using c m by (simp add: st d eval_step_unfold state_sig3_def)
qed

lemma training_loop_shapes:
  assumes "shape_preserving E"
  shows "\<exists>w' state' out'. training_loop E k ds (w, state, out) = Inr (w', state', out') \<and>
           state_sig4 state' = state_sig4 state"
proof (induction ds arbitrary: k w state out)
  case Nil
  show ?case by simp
next
  case (Cons d ds)
  obtain loss s1 where s: "train_step E state d = Inr (loss, s1)"
    and sg: "state_sig4 s1 = state_sig4 state"
    using train_step_shapes [OF assms] by blast
  obtain a b c mv where s1: "s1 = (a, b, c, mv)" by (cases s1) auto
  show ?case
  proof (cases "k mod 100 = 0")
    case True
    then show ?thesis
      using Cons.IH [of "Suc k" "w\<lparr>train_acc_vars := assign_all (train_acc_vars w) mv\<rparr>" s1] sg
      by (force simp add: s s1 Let_def simp del: split_paired_Ex)
  next
    case False
    then show ?thesis
      using Cons.IH [of "Suc k" w s1 out] sg
      by (force simp add: s s1 simp del: split_paired_Ex)
  qed
qed

lemma eval_loop_shapes:
  assumes "shape_preserving E"
  shows "state_sig3 (fst (snd (eval_loop E k ds (w, state, out)))) = state_sig3 state"
proof (induction ds arbitrary: k w state out)
  case Nil
  show ?case by simp
next
  case (Cons d ds)
  obtain loss a b mv where s: "eval_step E state d = (loss, (a, b, mv))"
    by (metis prod_cases3)
  have sg: "state_sig3 (a, b, mv) = state_sig3 state"
    using eval_step_shapes [OF assms, of state d] by (simp add: s)
  show ?case
    using Cons.IH sg by (simp add: s Let_def)
qed

lemma shape_sig_bump: "shape_sig (map bump vs) = shape_sig vs"
  by (simp add: shape_sig_def bump_def)

lemma shape_sig_central_diff: "shape_sig (central_diff f p) = shape_sig p"
  unfolding shape_sig_def central_diff_def
  by (rule nth_equalityI) simp_all

lemma shape_sig_descend:
  assumes "shape_sig g = shape_sig tv"
  shows "shape_sig (map (\<lambda>(a, g). descend a g) (zip tv g)) = shape_sig tv"
proof -
  have "length g = length tv"
    using assms by (metis length_map shape_sig_def)
  then show ?thesis
    unfolding shape_sig_def
    by (intro nth_equalityI) (simp_all add: descend_def)
qed

lemma shape_sig_accuracy_update: "shape_sig (accuracy_update mv y p) = shape_sig mv"
  by (induction mv y p rule: accuracy_update.induct) (simp_all add: shape_sig_def)

lemma toy_shape_preserving: "shape_preserving toy"
  by (simp add: shape_preserving_def toy_def toy_forward_def sgd_def categorical_accuracy_def
      shape_sig_bump shape_sig_central_diff shape_sig_descend shape_sig_accuracy_update)

section \<open>The accuracy accumulators\<close>

text \<open>
  The rows of two batches put one after the other are the rows of the first followed by
  the rows of the second, so the per-sample verdicts of the joined batch are those of
  the two batches in order.
\<close>

lemma split_upt: "[0..<n1 + n2] = [0..<n1] @ map (\<lambda>j. j + n1) [0..<n2]"
proof -
  have "[0..<n1 + n2] = [0..<n1] @ [n1..<n1 + n2]"
    by (rule upt_add_eq_append) simp
  moreover have "[n1..<n1 + n2] = map (\<lambda>j. j + n1) [0..<n2]"
    by (simp add: map_add_upt add.commute)
  ultimately show ?thesis by simp
qed

lemma take_drop_left:
  assumes "length v1 = n1 * k" "i < n1"
  shows "take k (drop (i * k) (v1 @ v2)) = take k (drop (i * k) v1)"
proof -
  have "Suc i \<le> n1" using assms(2) by simp
  then have "Suc i * k \<le> n1 * k" by (rule mult_le_mono1)
  then have "i * k + k \<le> length v1" using assms(1) by (simp add: add.commute)
  then show ?thesis by simp
qed

lemma take_drop_right:
  assumes "length v1 = n1 * k"
  shows "take k (drop ((j + n1) * k) (v1 @ v2)) = take k (drop (j * k) v2)"
  using assms by (simp add: add_mult_distrib)


lemma rows_append:
  assumes "length v1 = n1 * k"
  shows "rows (Array [n1 + n2, k] (v1 @ v2)) = rows (Array [n1, k] v1) @ rows (Array [n2, k] v2)"
proof -
  have a: "map (\<lambda>i. take k (drop (i * k) (v1 @ v2))) [0..<n1] =
           map (\<lambda>i. take k (drop (i * k) v1)) [0..<n1]"
  proof (rule map_cong)
    show "[0..<n1] = [0..<n1]" by (rule refl)
  next
    fix i assume "i \<in> set [0..<n1]"
    then have "i < n1" by simp
    then show "take k (drop (i * k) (v1 @ v2)) = take k (drop (i * k) v1)"
      by (rule take_drop_left [OF assms])
  qed
  have b: "map (\<lambda>j. take k (drop ((j + n1) * k) (v1 @ v2))) [0..<n2] =
           map (\<lambda>j. take k (drop (j * k) v2)) [0..<n2]"
    by (simp only: take_drop_right [OF assms])
  have "rows (Array [n1 + n2, k] (v1 @ v2)) =
        map (\<lambda>i. take k (drop (i * k) (v1 @ v2))) ([0..<n1] @ map (\<lambda>j. j + n1) [0..<n2])"
    by (simp only: rows.simps split_upt)
  also have "\<dots> = map (\<lambda>i. take k (drop (i * k) (v1 @ v2))) [0..<n1] @
                  map (\<lambda>j. take k (drop ((j + n1) * k) (v1 @ v2))) [0..<n2]"
    by (simp only: map_append map_map comp_def)
  also have "\<dots> = rows (Array [n1, k] v1) @ rows (Array [n2, k] v2)"
    by (simp only: a b rows.simps)
  finally show ?thesis .
qed

lemma length_rows: "length (rows (Array [n, k] v)) = n"
  by simp

lemma correct_append:
  assumes "batch_shape n1 k y1" "batch_shape n1 k p1" "batch_shape n2 k y2" "batch_shape n2 k p2"
  shows "correct (concat_rows y1 y2) (concat_rows p1 p2) = correct y1 p1 @ correct y2 p2"
proof -
  obtain a where y1: "y1 = Array [n1, k] a" and a: "length a = n1 * k"
    using assms(1) by (cases y1) (simp add: batch_shape_def)
  obtain b where p1: "p1 = Array [n1, k] b" and b: "length b = n1 * k"
    using assms(2) by (cases p1) (simp add: batch_shape_def)
  obtain c where y2: "y2 = Array [n2, k] c"
    using assms(3) by (cases y2) (simp add: batch_shape_def)
  obtain d where p2: "p2 = Array [n2, k] d"
    using assms(4) by (cases p2) (simp add: batch_shape_def)
  have "zip (rows (Array [n1, k] a) @ rows (Array [n2, k] c))
            (rows (Array [n1, k] b) @ rows (Array [n2, k] d)) =
        zip (rows (Array [n1, k] a)) (rows (Array [n1, k] b)) @
        zip (rows (Array [n2, k] c)) (rows (Array [n2, k] d))"
    by (rule zip_append) (simp only: length_rows)
  then show ?thesis
    unfolding correct_def y1 p1 y2 p2 concat_rows.simps rows_append [OF a] rows_append [OF b]
    by simp
qed

lemma accuracy_update_cases:
  "(\<exists>d1 tot d2 cnt. mv = [Array d1 [tot], Array d2 [cnt]]) \<or>
   (\<forall>y p. accuracy_update mv y p = mv)"
  by (cases "(mv, Array [] [], Array [] [])" rule: accuracy_update.cases) auto

section \<open>The claims\<close>





text \<open>
  C3. \<^verbatim>\<open>eval_step\<close> is a forward pass, the loss and the metric update: the trainable
  variables it returns are the ones it was given, the state it returns has three
  components, and neither the gradient, the optimizer nor the training metric has any
  part in its result.
\<close>

theorem eval_step_frame:
  "eval_step E (tv, ntv, mv) (x, y) =
     (loss_fn E y (fst (stateless_call (model E) tv ntv x None)),
      (tv, snd (stateless_call (model E) tv ntv x None),
       stateless_update_state (val_acc_metric E) mv y
         (fst (stateless_call (model E) tv ntv x None)))) \<and>
   fst (snd (eval_step E (tv, ntv, mv) (x, y))) = tv \<and>
   eval_step (E\<lparr>grad_of := D, optimizer := opt, train_acc_metric := tm\<rparr>) (tv, ntv, mv) (x, y) =
     eval_step E (tv, ntv, mv) (x, y)"
  by (simp add: eval_step_unfold)

text \<open>
  C4 fails on the third \<^verbatim>\<open>compute_loss_and_updates\<close>: it returns the flat tuple
  \<^verbatim>\<open>loss, non_trainable_variables, metric_variables\<close>, which is not the pair of the loss
  and the auxiliary output. Whatever the collaborators and the arguments,
  \<^verbatim>\<open>jax.value_and_grad(..., has_aux=True)\<close> rejects it and the destructuring of
  \<^verbatim>\<open>train_step\<close> does not match it.
\<close>

theorem losses_variant_rejected:
  "value_and_grad D (compute_loss_and_updates_losses E) tv (ntv, mv, x, y) = Inl TypeError \<and>
   unpack (compute_loss_and_updates_losses E tv (ntv, mv, x, y)) = None \<and>
   compute_loss_and_updates_losses E tv (ntv, mv, x, y) =
     (case stateless_call_losses (model E) tv ntv x None of
        (y_pred, ntv', losses) \<Rightarrow>
          PTuple [PNum (if losses \<noteq> [] then loss_fn E y y_pred + sum_list losses
                        else loss_fn E y y_pred),
                  PVars ntv',
                  PVars (stateless_update_state (train_acc_metric E) mv y y_pred)])"
  by (simp add: value_and_grad_def compute_loss_and_updates_losses_def Let_def
      split: prod.splits)

text \<open>
  C5. When the collaborators keep shapes (the forward pass for the non-trainable
  variables, the gradient for the differentiated argument, the optimizer for parameters
  and accumulators, the metric updates for the accumulators), every step function
  returns a state whose shape signature is that of the state it was given, component by
  component, and so do the loops after any number of iterations.
\<close>

theorem step_preserves_shapes:
  assumes "shape_preserving E"
  shows "(\<exists>loss state'. train_step E state data = Inr (loss, state') \<and>
            state_sig4 state' = state_sig4 state) \<and>
         (\<exists>loss state'. train_step0 E state0 data = Inr (loss, state') \<and>
            state_sig3 state' = state_sig3 state0) \<and>
         state_sig3 (snd (eval_step E state3 data)) = state_sig3 state3 \<and>
         (\<exists>w' state' out'. training_loop E k dataset (w, state, out) = Inr (w', state', out') \<and>
            state_sig4 state' = state_sig4 state) \<and>
         state_sig3 (fst (snd (eval_loop E k dataset (w, state3, out)))) = state_sig3 state3"
  by (intro conjI train_step_shapes train_step0_shapes eval_step_shapes training_loop_shapes
      eval_loop_shapes assms)

theorem step_preserves_shapes_witness:
  "shape_preserving toy \<and>
   (\<exists>loss state'. train_step toy ex_state (ex_x, ex_y) = Inr (loss, state') \<and>
      state_sig4 state' = ([[1]], [[]], [[]], [[], []])) \<and>
   state_sig4 ex_state = ([[1]], [[]], [[]], [[], []])"
proof -
  have sg: "state_sig4 ex_state = ([[1]], [[]], [[]], [[], []])"
    by code_simp
  show ?thesis
    using step_preserves_shapes [OF toy_shape_preserving, of ex_state "(ex_x, ex_y)"]
    by (simp add: toy_shape_preserving sg)
qed

text \<open>
  C6 fails on the code: the state handed to the first \<^verbatim>\<open>eval_step\<close> always carries
  the metric accumulators of the training state. After a training loop over one batch of
  two samples these are one correct of two, not the zero accumulators that
  \<^verbatim>\<open>val_acc_metric.variables\<close> holds.
\<close>

theorem eval_starts_from_training_metric:
  "eval_setup w (tv, ntv, ov, mv) = (tv, ntv, mv) \<and>
   training_loop toy 0 [(ex_x, ex_y)] (fst (training_setup toy ex_objs), snd (training_setup toy ex_objs), []) =
     Inr (ex_objs\<lparr>optimizer_vars := [Array [] [0]], train_acc_vars := [Array [] [1], Array [] [2]]\<rparr>,
          ([Array [1] [- (3 / 2)]], [Array [] [1]], [Array [] [1]], [Array [] [1], Array [] [2]]),
          [TrainingLoss 0 (9 / 2), TrainingAccuracy (1 / 2), SeenSoFar 32]) \<and>
   eval_setup (ex_objs\<lparr>optimizer_vars := [Array [] [0]], train_acc_vars := [Array [] [1], Array [] [2]]\<rparr>)
       ([Array [1] [- (3 / 2)]], [Array [] [1]], [Array [] [1]], [Array [] [1], Array [] [2]]) =
     ([Array [1] [- (3 / 2)]], [Array [] [1]], [Array [] [1], Array [] [2]]) \<and>
   val_acc_vars (ex_objs\<lparr>optimizer_vars := [Array [] [0]], train_acc_vars := [Array [] [1], Array [] [2]]\<rparr>) =
     [Array [] [0], Array [] [0]]"
proof -
  have every: "eval_setup w (tv, ntv, ov, mv) = (tv, ntv, mv)"
    by (simp add: eval_setup_def)
  have run: "training_loop toy 0 [(ex_x, ex_y)] (fst (training_setup toy ex_objs), snd (training_setup toy ex_objs), []) =
     Inr (ex_objs\<lparr>optimizer_vars := [Array [] [0]], train_acc_vars := [Array [] [1], Array [] [2]]\<rparr>,
          ([Array [1] [- (3 / 2)]], [Array [] [1]], [Array [] [1]], [Array [] [1], Array [] [2]]),
          [TrainingLoss 0 (9 / 2), TrainingAccuracy (1 / 2), SeenSoFar 32]) \<and>
   eval_setup (ex_objs\<lparr>optimizer_vars := [Array [] [0]], train_acc_vars := [Array [] [1], Array [] [2]]\<rparr>)
       ([Array [1] [- (3 / 2)]], [Array [] [1]], [Array [] [1]], [Array [] [1], Array [] [2]]) =
     ([Array [1] [- (3 / 2)]], [Array [] [1]], [Array [] [1], Array [] [2]]) \<and>
   val_acc_vars (ex_objs\<lparr>optimizer_vars := [Array [] [0]], train_acc_vars := [Array [] [1], Array [] [2]]\<rparr>) =
     [Array [] [0], Array [] [0]]"
    by code_simp
  show ?thesis
    by (rule conjI [OF every run])
qed

text \<open>
  C7. For the accuracy metric, updating with one batch and then another gives the
  accumulators, and so the reduced value, of one update with the two batches joined;
  the order of the two updates does not matter. The batches are targets and predictions
  of shapes \<open>[n1, k]\<close> and \<open>[n2, k]\<close>.
\<close>

theorem accuracy_accumulation_additive:
  assumes "batch_shape n1 k y1" "batch_shape n1 k p1" "batch_shape n2 k y2" "batch_shape n2 k p2"
  shows "accuracy_reduce (accuracy_update (accuracy_update accuracy_reset y1 p1) y2 p2) =
           accuracy_reduce (accuracy_update accuracy_reset (concat_rows y1 y2) (concat_rows p1 p2)) \<and>
         accuracy_update (accuracy_update mv y1 p1) y2 p2 =
           accuracy_update mv (concat_rows y1 y2) (concat_rows p1 p2) \<and>
         accuracy_update (accuracy_update mv y1 p1) y2 p2 =
           accuracy_update (accuracy_update mv y2 p2) y1 p1"
proof -
  have cat: "accuracy_update (accuracy_update m y1 p1) y2 p2 =
             accuracy_update m (concat_rows y1 y2) (concat_rows p1 p2)" for m
  proof -
    consider (acc) d1 tot d2 cnt where "m = [Array d1 [tot], Array d2 [cnt]]"
      | (other) "\<forall>y p. accuracy_update m y p = m"
      using accuracy_update_cases by blast
    then show ?thesis
    proof cases
      case acc
      show ?thesis
        by (simp add: acc correct_append [OF assms] add.assoc)
    next
      case other
      then show ?thesis by simp
    qed
  qed
  have comm: "accuracy_update (accuracy_update mv y1 p1) y2 p2 =
              accuracy_update (accuracy_update mv y2 p2) y1 p1"
  proof -
    consider (acc) d1 tot d2 cnt where "mv = [Array d1 [tot], Array d2 [cnt]]"
      | (other) "\<forall>y p. accuracy_update mv y p = mv"
      using accuracy_update_cases by blast
    then show ?thesis
    proof cases
      case acc
      show ?thesis
        by (simp add: acc add.assoc add.commute)
    next
      case other
      then show ?thesis by simp
    qed
  qed
  show ?thesis
    using cat [of accuracy_reset] cat [of mv] comm by simp
qed

theorem accuracy_accumulation_additive_witness:
  "batch_shape 2 2 ex_y \<and> batch_shape 2 2 (Array [2, 2] [1 / 2, 1, 2, 3 / 2]) \<and>
   batch_shape 1 2 (Array [1, 2] [1, 0]) \<and> batch_shape 1 2 (Array [1, 2] [3, 2]) \<and>
   accuracy_reduce
     (accuracy_update (accuracy_update accuracy_reset ex_y (Array [2, 2] [1 / 2, 1, 2, 3 / 2]))
        (Array [1, 2] [1, 0]) (Array [1, 2] [3, 2])) = 2 / 3 \<and>
   accuracy_reduce
     (accuracy_update accuracy_reset (Array [3, 2] [0, 1, 0, 1, 1, 0])
        (Array [3, 2] [1 / 2, 1, 2, 3 / 2, 3, 2])) = 2 / 3"
proof -
  have s1: "batch_shape 2 2 ex_y" by code_simp
  have s2: "batch_shape 2 2 (Array [2, 2] [1 / 2, 1, 2, 3 / 2])" by code_simp
  have s3: "batch_shape 1 2 (Array [1, 2] [1, 0])" by code_simp
  have s4: "batch_shape 1 2 (Array [1, 2] [3, 2])" by code_simp
  have c1: "concat_rows ex_y (Array [1, 2] [1, 0]) = Array [3, 2] [0, 1, 0, 1, 1, 0]"
    by code_simp
  have c2: "concat_rows (Array [2, 2] [1 / 2, 1, 2, 3 / 2]) (Array [1, 2] [3, 2]) =
            Array [3, 2] [1 / 2, 1, 2, 3 / 2, 3, 2]"
    by code_simp
  have v: "accuracy_reduce
     (accuracy_update accuracy_reset (Array [3, 2] [0, 1, 0, 1, 1, 0])
        (Array [3, 2] [1 / 2, 1, 2, 3 / 2, 3, 2])) = 2 / 3"
    by code_simp
  have t: "accuracy_reduce
     (accuracy_update (accuracy_update accuracy_reset ex_y (Array [2, 2] [1 / 2, 1, 2, 3 / 2]))
        (Array [1, 2] [1, 0]) (Array [1, 2] [3, 2])) =
     accuracy_reduce
       (accuracy_update accuracy_reset (concat_rows ex_y (Array [1, 2] [1, 0]))
          (concat_rows (Array [2, 2] [1 / 2, 1, 2, 3 / 2]) (Array [1, 2] [3, 2])))"
    by (rule conjunct1 [OF accuracy_accumulation_additive [OF s1 s2 s3 s4]])
  have t': "accuracy_reduce
     (accuracy_update (accuracy_update accuracy_reset ex_y (Array [2, 2] [1 / 2, 1, 2, 3 / 2]))
        (Array [1, 2] [1, 0]) (Array [1, 2] [3, 2])) = 2 / 3"
    using t by (simp only: c1 c2 v)
  show ?thesis
    by (intro conjI s1 s2 s3 s4 t' v)
qed

text \<open>
  C9. The loss that \<^verbatim>\<open>train_step\<close> returns and the predictions that enter the metric
  update are those of the forward pass on the trainable variables of the input state,
  not on the updated ones of the returned state.
\<close>

theorem step_uses_input_parameters:
  "\<exists>tv' ntv' ov'.
     train_step E (tv, ntv, ov, mv) (x, y) =
       Inr (loss_fn E y (fst (stateless_call (model E) tv ntv x None)),
            (tv', ntv', ov',
             stateless_update_state (train_acc_metric E) mv y
               (fst (stateless_call (model E) tv ntv x None))))"
  by (simp add: train_step_unfold)

text \<open>
  On the small instance the step returns the loss \<open>9/2\<close> of the weight \<open>1/2\<close> it was
  given; the weight \<open>-3/2\<close> of the returned state has the loss \<open>169/2\<close>.
\<close>

theorem step_uses_input_parameters_witness:
  "(\<exists>tv' ntv' ov'.
      train_step toy ex_state (ex_x, ex_y) = Inr (9 / 2, (tv', ntv', ov', [Array [] [1], Array [] [2]]))) \<and>
   train_step toy ex_state (ex_x, ex_y) =
     Inr (9 / 2, ([Array [1] [- (3 / 2)]], [Array [] [1]], [Array [] [1]], [Array [] [1], Array [] [2]])) \<and>
   loss_fn toy ex_y (fst (stateless_call (model toy) ex_tv ex_ntv ex_x None)) = 9 / 2 \<and>
   loss_fn toy ex_y (fst (stateless_call (model toy) [Array [1] [- (3 / 2)]] ex_ntv ex_x None)) = 169 / 2"
proof -
  have a: "loss_fn toy ex_y (fst (stateless_call (model toy) ex_tv ex_ntv ex_x None)) = 9 / 2"
    by code_simp
  have b: "loss_fn toy ex_y (fst (stateless_call (model toy) [Array [1] [- (3 / 2)]] ex_ntv ex_x None)) = 169 / 2"
    by code_simp
  have c: "stateless_update_state (train_acc_metric toy) accuracy_reset ex_y
             (fst (stateless_call (model toy) ex_tv ex_ntv ex_x None)) = [Array [] [1], Array [] [2]]"
    by code_simp
  have d: "train_step toy ex_state (ex_x, ex_y) =
     Inr (9 / 2, ([Array [1] [- (3 / 2)]], [Array [] [1]], [Array [] [1]], [Array [] [1], Array [] [2]]))"
    by code_simp
  have e: "\<exists>tv' ntv' ov'.
      train_step toy ex_state (ex_x, ex_y) = Inr (9 / 2, (tv', ntv', ov', [Array [] [1], Array [] [2]]))"
    using step_uses_input_parameters [of toy ex_tv ex_ntv "[Array [] [0]]" accuracy_reset ex_x ex_y]
    by (simp only: a c ex_state_def)
  show ?thesis
    by (intro conjI e a b d)
qed

text \<open>
  C10. The first example attaches the final trainable and non-trainable values to the
  model and nothing else; neither example assigns to the optimizer's variables after
  \<^verbatim>\<open>optimizer.build\<close>, so after the loops the optimizer object holds what \<^verbatim>\<open>build\<close> gave
  it. (The second example does not write to the model's variables at all.)
\<close>

theorem optimizer_object_never_updated:
  "(\<exists>w' out. first_example E w train_dataset = Inr (w', out) \<and>
      optimizer_vars w' = build (optimizer E) (model_tv w) \<and>
      train_acc_vars w' = train_acc_vars w \<and> val_acc_vars w' = val_acc_vars w) \<and>
   (\<exists>w' state' out. second_example E w train_dataset val_dataset = Inr (w', state', out) \<and>
      optimizer_vars w' = build (optimizer E) (model_tv w) \<and>
      model_tv w' = model_tv w \<and> model_ntv w' = model_ntv w)"
proof
  obtain a b c out where
    "training_loop0 E 0 train_dataset
       ((model_tv w, model_ntv w, build (optimizer E) (model_tv w)), []) = Inr ((a, b, c), out)"
    using training_loop0_total by (metis prod_cases3)
  then show "\<exists>w' out. first_example E w train_dataset = Inr (w', out) \<and>
      optimizer_vars w' = build (optimizer E) (model_tv w) \<and>
      train_acc_vars w' = train_acc_vars w \<and> val_acc_vars w' = val_acc_vars w"
    by (simp add: first_example_def Let_def)
next
  define w1 where "w1 = w\<lparr>optimizer_vars := build (optimizer E) (model_tv w)\<rparr>"
  define s1 where "s1 = (model_tv w1, model_ntv w1, optimizer_vars w1, train_acc_vars w1)"
  have su: "training_setup E w = (w1, s1)"
    by (simp add: training_setup_def w1_def s1_def Let_def)
  obtain mvs s2 out2 where
    t: "training_loop E 0 train_dataset (w1, s1, []) = Inr (w1\<lparr>train_acc_vars := mvs\<rparr>, s2, out2)"
    using training_loop_frame by blast
  obtain mvs' s3 out3 where
    e: "eval_loop E 0 val_dataset
          (w1\<lparr>train_acc_vars := mvs\<rparr>, eval_setup (w1\<lparr>train_acc_vars := mvs\<rparr>) s2, out2) =
        (w1\<lparr>train_acc_vars := mvs\<rparr>\<lparr>val_acc_vars := mvs'\<rparr>, s3, out3)"
    using eval_loop_frame by blast
  define w3 where "w3 = w1\<lparr>train_acc_vars := mvs\<rparr>\<lparr>val_acc_vars := mvs'\<rparr>"
  have "second_example E w train_dataset val_dataset = Inr (w3, s3, out3)"
    by (simp add: second_example_def su t e w3_def)
  moreover have "optimizer_vars w3 = build (optimizer E) (model_tv w)"
    and "model_tv w3 = model_tv w" and "model_ntv w3 = model_ntv w"
    by (simp_all add: w3_def w1_def)
  ultimately show "\<exists>w' state' out. second_example E w train_dataset val_dataset = Inr (w', state', out) \<and>
      optimizer_vars w' = build (optimizer E) (model_tv w) \<and>
      model_tv w' = model_tv w \<and> model_ntv w' = model_ntv w"
    by blast
qed

text \<open>
  On the small instance the final state of the first example holds the step counter
  \<open>1\<close> in its optimizer variables, and the optimizer object still holds the \<open>0\<close> of
  \<^verbatim>\<open>build\<close>.
\<close>

theorem optimizer_object_never_updated_witness:
  "(\<exists>w' out. first_example toy ex_objs [(ex_x, ex_y)] = Inr (w', out) \<and>
      optimizer_vars w' = [Array [] [0]]) \<and>
   training_loop0 toy 0 [(ex_x, ex_y)] ((ex_tv, ex_ntv, [Array [] [0]]), []) =
     Inr (([Array [1] [- (3 / 2)]], [Array [] [1]], [Array [] [1]]),
          [TrainingLoss 0 (9 / 2), SeenSoFar 32])"
proof -
  have b: "build (optimizer toy) (model_tv ex_objs) = [Array [] [0]]"
    by code_simp
  have l: "training_loop0 toy 0 [(ex_x, ex_y)] ((ex_tv, ex_ntv, [Array [] [0]]), []) =
     Inr (([Array [1] [- (3 / 2)]], [Array [] [1]], [Array [] [1]]),
          [TrainingLoss 0 (9 / 2), SeenSoFar 32])"
    by code_simp
  have "\<exists>w' out. first_example toy ex_objs [(ex_x, ex_y)] = Inr (w', out) \<and>
      optimizer_vars w' = [Array [] [0]]"
    using optimizer_object_never_updated [of toy ex_objs "[(ex_x, ex_y)]" "[]"]
    by (simp only: b) blast
  then show ?thesis
    by (intro conjI l)
qed

end
